theory Spec2Isabelle
  imports Main "HOL-Library.Log_Nat" "HOL-Library.AList"
begin

section \<open>Messages on the \<open>prompt-api\<close> port\<close>

text \<open>
  The UI side (\<open>AISessionManager.js\<close>) and the background script (\<open>background/main.js\<close>)
  talk over one long-lived port. A message is an object with a \<open>type\<close> field; there is no
  correlation id. Requests travel from the client to the server, responses the other way.
\<close>

datatype turn = Turn (role: string) (content: string)

datatype request =
    CheckAvailability
  | DownloadModel
  | CreateSession
  | PromptStreaming "turn list"
  | GetUsageInfo
  | DestroySession
  | OtherRequest string

text \<open>The \<open>data\<close> object of a \<open>usage-info\<close> message: inputUsage, inputQuota, percentUsed.\<close>

datatype usage_data = UsageData nat nat int

datatype response =
    Availability string string
  | DownloadProgress rat
  | DownloadComplete
  | SessionCreated
  | Chunk string
  | Complete
  | UsageInfo "usage_data option"
  | SessionDestroyed
  | Error string

fun type_of :: "response \<Rightarrow> string" where
  "type_of (Availability s m) = ''availability''"
| "type_of (DownloadProgress p) = ''download-progress''"
| "type_of DownloadComplete = ''download-complete''"
| "type_of SessionCreated = ''session-created''"
| "type_of (Chunk c) = ''chunk''"
| "type_of Complete = ''complete''"
| "type_of (UsageInfo d) = ''usage-info''"
| "type_of SessionDestroyed = ''session-destroyed''"
| "type_of (Error m) = ''error''"

section \<open>JavaScript numbers\<close>

text \<open>
  \<open>inputUsage / inputQuota\<close> and the product with 100 are IEEE-754 binary64 operations:
  each rounds the exact result to the nearest number with a 53-bit significand, ties to
  the even significand. \<open>fl\<close> is that rounding on the rationals, with an unbounded
  exponent (no overflow, no subnormals: the values of this program stay far from both).
  \<open>Math.round\<close> is exact: the nearest integer, ties towards \<open>+\<infinity>\<close>.
\<close>

definition round_even :: "rat \<Rightarrow> int" where
  "round_even y =
     (let f = \<lfloor>y\<rfloor>; d = y - of_int f
      in if d < 1 / 2 then f else if 1 / 2 < d then f + 1 else if even f then f else f + 1)"

definition ilog2 :: "rat \<Rightarrow> int" where
  "ilog2 x =
     (let d = bitlen (fst (quotient_of x)) - bitlen (snd (quotient_of x))
      in if 2 powi d \<le> x then d else d - 1)"

definition fl :: "rat \<Rightarrow> rat" where
  "fl x =
     (if x = 0 then 0
      else let e = ilog2 \<bar>x\<bar> - 52
           in sgn x * of_int (round_even (\<bar>x\<bar> / 2 powi e)) * 2 powi e)"

definition js_div :: "rat \<Rightarrow> rat \<Rightarrow> rat" where
  "js_div a b = fl (a / b)"

definition js_mul :: "rat \<Rightarrow> rat \<Rightarrow> rat" where
  "js_mul a b = fl (a * b)"

definition Math_round :: "rat \<Rightarrow> int" where
  "Math_round x = \<lfloor>x + 1 / 2\<rfloor>"

text \<open>\<open>x || d\<close> on a field that holds a number or is absent: 0 and \<open>undefined\<close> are falsy.\<close>

fun or_default :: "nat option \<Rightarrow> nat \<Rightarrow> nat" where
  "or_default None d = d"
| "or_default (Some n) d = (if n = 0 then d else n)"

section \<open>The server: \<open>background/main.js\<close>\<close>

text \<open>
  The module state is \<open>promptAPISession\<close> and \<open>promptAPIController\<close>. Both are references:
  a session handle is destroyed through one reference and read through another, a
  controller is aborted through the variable while a running operation holds its signal.
  So handles and controllers live in stores, and the variables hold indices.
\<close>

record handle =
  destroyed :: bool
  inputUsage :: "nat option"
  inputQuota :: "nat option"

text \<open>
  The handlers are \<open>async\<close> functions: each runs to its next \<open>await\<close> and is resumed
  when the provider settles the awaited promise. A task is a suspended activation: the
  await it stands at, and the abort signal it passed to the provider.
\<close>

datatype kind = Download | Create

datatype task =
    CheckAvailabilityAwait
  | InitAvailabilityAwait kind nat
  | InitCreateAwait kind nat
  | StreamOpenAwait nat
  | StreamNextAwait nat
  | Finished

record server =
  languageModel :: bool
  promptAPISession :: "nat option"
  promptAPIController :: "nat option"
  sessions :: "handle list"
  controllers :: "bool list"
  tasks :: "task list"
  port :: "response list"

text \<open>What the provider hands to a waiting task.\<close>

datatype outcome =
    AvailabilityIs string
  | SessionIs "nat option" "nat option"
  | DownloadProgressEvent "rat option"
  | StreamIs
  | Fragment string
  | StreamEnd
  | Rejects string

definition postMessage :: "server \<Rightarrow> response \<Rightarrow> server" where
  "postMessage st m = st\<lparr>port := port st @ [m]\<rparr>"

definition isPromptAPISupported :: "server \<Rightarrow> bool" where
  "isPromptAPISupported st = languageModel st"

definition newAbortController :: "server \<Rightarrow> nat \<times> server" where
  "newAbortController st = (length (controllers st), st\<lparr>controllers := controllers st @ [False]\<rparr>)"

definition abort :: "server \<Rightarrow> nat \<Rightarrow> server" where
  "abort st c = st\<lparr>controllers := (controllers st)[c := True]\<rparr>"

definition aborted :: "server \<Rightarrow> nat \<Rightarrow> bool" where
  "aborted st c = (c < length (controllers st) \<and> controllers st ! c)"

definition destroy :: "server \<Rightarrow> nat \<Rightarrow> server" where
  "destroy st h = st\<lparr>sessions := (sessions st)[h := (sessions st ! h)\<lparr>destroyed := True\<rparr>]\<rparr>"

definition spawn :: "server \<Rightarrow> task \<Rightarrow> server" where
  "spawn st t = st\<lparr>tasks := tasks st @ [t]\<rparr>"

definition suspend :: "server \<Rightarrow> nat \<Rightarrow> task \<Rightarrow> server" where
  "suspend st i t = st\<lparr>tasks := (tasks st)[i := t]\<rparr>"

text \<open>\<open>if (promptAPIController) { promptAPIController.abort(); }\<close>\<close>

definition abortExisting :: "server \<Rightarrow> server" where
  "abortExisting st = (case promptAPIController st of None \<Rightarrow> st | Some c \<Rightarrow> abort st c)"

subsection \<open>check-availability\<close>

text \<open>The characters \<open>"\<close> and \<open>'\<close> of the message texts.\<close>

definition dquote :: string where
  "dquote = [CHR 0x22]"

definition squote :: string where
  "squote = [CHR 0x27]"

fun availabilityStatus :: "string \<Rightarrow> string \<times> string" where
  "availabilityStatus availability =
     (if availability = ''available'' then (''ready'', ''Gemini Nano is ready to use'')
      else if availability = ''downloadable''
        then (''needs-download'', ''Gemini Nano needs to be downloaded (~22GB)'')
      else if availability = ''downloading''
        then (''downloading'', ''Gemini Nano is currently downloading'')
      else if availability = ''unavailable''
        then (''unavailable'', ''Gemini Nano is not available on this device'')
      else (''unavailable'',
            ''Gemini Nano status unknown. Availability returned: '' @ dquote @ availability
              @ dquote))"

definition handleCheckAvailability :: "server \<Rightarrow> server" where
  "handleCheckAvailability st =
     (if \<not> isPromptAPISupported st
      then postMessage st (Availability ''unavailable''
             ''Prompt API not supported - LanguageModel not found in self'')
      else spawn st CheckAvailabilityAwait)"

fun resumeCheckAvailability :: "server \<Rightarrow> nat \<Rightarrow> outcome \<Rightarrow> server" where
  "resumeCheckAvailability st i (AvailabilityIs availability) =
     (let (status, message) = availabilityStatus availability
      in suspend (postMessage st (Availability status message)) i Finished)"
| "resumeCheckAvailability st i (Rejects m) =
     suspend (postMessage st (Availability ''error'' (''Error: '' @ m))) i Finished"
| "resumeCheckAvailability st i _ = st"

subsection \<open>download-model and create-session\<close>

text \<open>
  Both call \<open>initPromptAPISession\<close>, which awaits the availability and then
  \<open>LanguageModel.create\<close>. A failure lands in the caller's \<open>catch\<close>; download-model has
  a \<open>finally\<close> that clears \<open>promptAPIController\<close>.
\<close>

definition handleDownloadModel :: "server \<Rightarrow> server" where
  "handleDownloadModel st =
     (if \<not> isPromptAPISupported st then postMessage st (Error ''Prompt API not supported'')
      else let (c, st') = newAbortController (abortExisting st)
           in spawn (st'\<lparr>promptAPIController := Some c\<rparr>) (InitAvailabilityAwait Download c))"

definition destroyExisting :: "server \<Rightarrow> server" where
  "destroyExisting st =
     (case promptAPISession st of None \<Rightarrow> st
      | Some h \<Rightarrow> (destroy st h)\<lparr>promptAPISession := None\<rparr>)"

definition handleCreateSession :: "server \<Rightarrow> server" where
  "handleCreateSession st =
     (if \<not> isPromptAPISupported st then postMessage st (Error ''Prompt API not supported'')
      else let (c, st') = newAbortController (destroyExisting st)
           in spawn st' (InitAvailabilityAwait Create c))"

text \<open>The \<open>catch\<close> (and for download-model the \<open>finally\<close>) of the two handlers.\<close>

fun initFailed :: "kind \<Rightarrow> server \<Rightarrow> nat \<Rightarrow> string \<Rightarrow> server" where
  "initFailed Download st i m =
     suspend ((postMessage st (Error m))\<lparr>promptAPIController := None\<rparr>) i Finished"
| "initFailed Create st i m = suspend (postMessage st (Error m)) i Finished"

fun initSucceeded :: "kind \<Rightarrow> server \<Rightarrow> nat \<Rightarrow> server" where
  "initSucceeded Download st i =
     suspend ((postMessage st DownloadComplete)\<lparr>promptAPIController := None\<rparr>) i Finished"
| "initSucceeded Create st i = suspend (postMessage st SessionCreated) i Finished"

fun resumeInitAvailability :: "kind \<Rightarrow> nat \<Rightarrow> server \<Rightarrow> nat \<Rightarrow> outcome \<Rightarrow> server" where
  "resumeInitAvailability k c st i (AvailabilityIs availability) =
     (if availability = ''unavailable''
      then initFailed k st i ''AI Model is not available on this device.''
      else suspend st i (InitCreateAwait k c))"
| "resumeInitAvailability k c st i (Rejects m) = initFailed k st i m"
| "resumeInitAvailability k c st i _ = st"

fun resumeInitCreate :: "kind \<Rightarrow> nat \<Rightarrow> server \<Rightarrow> nat \<Rightarrow> outcome \<Rightarrow> server" where
  "resumeInitCreate k c st i (SessionIs u q) =
     initSucceeded k
       (st\<lparr>sessions := sessions st @ [\<lparr>destroyed = False, inputUsage = u, inputQuota = q\<rparr>],
           promptAPISession := Some (length (sessions st))\<rparr>) i"
| "resumeInitCreate k c st i (DownloadProgressEvent loaded) =
     (if k = Download
      then postMessage st (DownloadProgress (case loaded of None \<Rightarrow> 0 | Some p \<Rightarrow> p))
      else st)"
| "resumeInitCreate k c st i (Rejects m) = initFailed k st i m"
| "resumeInitCreate k c st i _ = st"

subsection \<open>prompt-streaming\<close>

definition handlePromptStreaming :: "server \<Rightarrow> turn list \<Rightarrow> server" where
  "handlePromptStreaming st messages =
     (case promptAPISession st of
        None \<Rightarrow> postMessage st (Error ''No active session'')
      | Some h \<Rightarrow>
          let (c, st') = newAbortController (abortExisting st)
          in spawn (st'\<lparr>promptAPIController := Some c\<rparr>) (StreamOpenAwait c))"

text \<open>
  The \<open>catch\<close> and \<open>finally\<close> of the handler. Reading \<open>promptAPIController.signal\<close> while
  the variable is \<open>null\<close> throws a TypeError inside the \<open>try\<close>, so it ends here too.
\<close>

definition streamFinally :: "server \<Rightarrow> nat \<Rightarrow> server" where
  "streamFinally st i = suspend (st\<lparr>promptAPIController := None\<rparr>) i Finished"

definition streamCatch :: "server \<Rightarrow> nat \<Rightarrow> string \<Rightarrow> server" where
  "streamCatch st i m = streamFinally (postMessage st (Error m)) i"

definition nullSignalTypeError :: string where
  "nullSignalTypeError =
     ''Cannot read properties of null (reading '' @ squote @ ''signal'' @ squote @ '')''"

fun resumeStreamOpen :: "nat \<Rightarrow> server \<Rightarrow> nat \<Rightarrow> outcome \<Rightarrow> server" where
  "resumeStreamOpen c st i StreamIs = suspend st i (StreamNextAwait c)"
| "resumeStreamOpen c st i (Rejects m) = streamCatch st i m"
| "resumeStreamOpen c st i _ = st"

fun resumeStreamNext :: "nat \<Rightarrow> server \<Rightarrow> nat \<Rightarrow> outcome \<Rightarrow> server" where
  "resumeStreamNext c st i (Fragment chunk) =
     (case promptAPIController st of
        None \<Rightarrow> streamCatch st i nullSignalTypeError
      | Some g \<Rightarrow> if aborted st g then streamFinally st i else postMessage st (Chunk chunk))"
| "resumeStreamNext c st i StreamEnd =
     (case promptAPIController st of
        None \<Rightarrow> streamCatch st i nullSignalTypeError
      | Some g \<Rightarrow>
          if \<not> aborted st g then streamFinally (postMessage st Complete) i
          else streamFinally st i)"
| "resumeStreamNext c st i (Rejects m) = streamCatch st i m"
| "resumeStreamNext c st i _ = st"

subsection \<open>get-usage-info and destroy-session\<close>

definition percentUsed :: "nat \<Rightarrow> nat \<Rightarrow> int" where
  "percentUsed u q = Math_round (js_mul (js_div (of_nat u) (of_nat q)) 100)"

definition handleGetUsageInfo :: "server \<Rightarrow> server" where
  "handleGetUsageInfo st =
     (case promptAPISession st of
        None \<Rightarrow> postMessage st (UsageInfo None)
      | Some h \<Rightarrow>
          let u = or_default (inputUsage (sessions st ! h)) 0;
              q = or_default (inputQuota (sessions st ! h)) 4096
          in postMessage st (UsageInfo (Some (UsageData u q (percentUsed u q)))))"

definition handleDestroySession :: "server \<Rightarrow> server" where
  "handleDestroySession st =
     (let st1 = destroyExisting st;
          st2 = (case promptAPIController st1 of None \<Rightarrow> st1
                 | Some c \<Rightarrow> (abort st1 c)\<lparr>promptAPIController := None\<rparr>)
      in postMessage st2 SessionDestroyed)"

subsection \<open>Dispatch\<close>

fun onMessage :: "server \<Rightarrow> request \<Rightarrow> server" where
  "onMessage st CheckAvailability = handleCheckAvailability st"
| "onMessage st DownloadModel = handleDownloadModel st"
| "onMessage st CreateSession = handleCreateSession st"
| "onMessage st (PromptStreaming messages) = handlePromptStreaming st messages"
| "onMessage st GetUsageInfo = handleGetUsageInfo st"
| "onMessage st DestroySession = handleDestroySession st"
| "onMessage st (OtherRequest t) = st"

fun resumeTask :: "task \<Rightarrow> server \<Rightarrow> nat \<Rightarrow> outcome \<Rightarrow> server" where
  "resumeTask CheckAvailabilityAwait st i r = resumeCheckAvailability st i r"
| "resumeTask (InitAvailabilityAwait k c) st i r = resumeInitAvailability k c st i r"
| "resumeTask (InitCreateAwait k c) st i r = resumeInitCreate k c st i r"
| "resumeTask (StreamOpenAwait c) st i r = resumeStreamOpen c st i r"
| "resumeTask (StreamNextAwait c) st i r = resumeStreamNext c st i r"
| "resumeTask Finished st i r = st"

definition resume :: "server \<Rightarrow> nat \<Rightarrow> outcome \<Rightarrow> server" where
  "resume st i r = (if i < length (tasks st) then resumeTask (tasks st ! i) st i r else st)"

text \<open>
  The event loop of the service worker: a request arrives on the port, or the provider
  settles what task \<open>i\<close> awaits. Each event runs to the next \<open>await\<close>.
\<close>

datatype event = Message request | Provider nat outcome

fun step :: "server \<Rightarrow> event \<Rightarrow> server" where
  "step st (Message m) = onMessage st m"
| "step st (Provider i r) = resume st i r"

definition run :: "server \<Rightarrow> event list \<Rightarrow> server" where
  "run st evs = foldl step st evs"

definition initial :: server where
  "initial = \<lparr>languageModel = True, promptAPISession = None, promptAPIController = None,
     sessions = [], controllers = [], tasks = [], port = []\<rparr>"

section \<open>The client: \<open>AISessionManager.js\<close>\<close>

text \<open>
  The handlers a call registers in \<open>_messageHandlers\<close> are closures; the ones modelled
  are those of \<open>promptStreaming\<close> (for \<open>chunk\<close>, \<open>complete\<close>, \<open>error\<close>) and of
  \<open>getUsageInfo\<close> (for \<open>usage-info\<close>). The registry is keyed by message type and a
  second registration under a type overwrites the first.
\<close>

datatype handler = StreamChunk | StreamComplete | StreamError | UsageInfoHandler

record client =
  isConnected :: bool
  hasActiveSession :: bool
  messageHandlers :: "(string \<times> handler) list"
  sent :: "request list"
  usageInfo :: "usage_data option option"

text \<open>The constructor, and a client after \<open>createSession\<close> has resolved.\<close>

definition newClient :: client where
  "newClient = \<lparr>isConnected = False, hasActiveSession = False, messageHandlers = [],
     sent = [], usageInfo = None\<rparr>"

definition activeClient :: client where
  "activeClient = newClient\<lparr>isConnected := True, hasActiveSession := True\<rparr>"

definition connect :: "client \<Rightarrow> client" where
  "connect c = (if isConnected c then c else c\<lparr>isConnected := True\<rparr>)"

definition on :: "client \<Rightarrow> string \<Rightarrow> handler \<Rightarrow> client" where
  "on c t h = c\<lparr>messageHandlers := AList.update t h (messageHandlers c)\<rparr>"

definition off :: "client \<Rightarrow> string \<Rightarrow> client" where
  "off c t = c\<lparr>messageHandlers := AList.delete t (messageHandlers c)\<rparr>"

definition send :: "client \<Rightarrow> request \<Rightarrow> client" where
  "send c m = (connect c)\<lparr>sent := sent (connect c) @ [m]\<rparr>"

subsection \<open>The stream returned by \<open>promptStreaming\<close>\<close>

text \<open>
  The stream is an async generator. Its body runs only while a \<open>next()\<close> request is
  outstanding; it stops at \<open>await new Promise(...)\<close> until a handler settles that
  promise, and at \<open>yield\<close> until the consumer asks again. Messages arrive as separate
  tasks of the event loop, so whatever the body does between two such stops is one step.
  The record holds the generator's local variables, where it stands, how many
  \<open>next()\<close> requests are unanswered, and the fragments it has yielded.
\<close>

datatype position = NotStarted | AwaitingChunk | AtYield | Returned | Threw string

record stream =
  streamHandlersSet :: bool
  chunkPromises :: "string list"
  resolveChunk :: bool
  rejectChunk :: bool
  isComplete :: bool
  error :: "string option"
  position :: position
  requests :: nat
  yielded :: "string list"

definition newStream :: stream where
  "newStream = \<lparr>streamHandlersSet = False, chunkPromises = [], resolveChunk = False,
     rejectChunk = False, isComplete = False, error = None, position = NotStarted,
     requests = 0, yielded = []\<rparr>"

text \<open>After the loop: \<open>if (error) { throw error; }\<close>, else the generator returns.\<close>

definition finish :: "stream \<Rightarrow> stream" where
  "finish g =
     g\<lparr>position := (case error g of None \<Rightarrow> Returned | Some e \<Rightarrow> Threw e), requests := 0\<rparr>"

text \<open>\<open>if (chunk) { yield chunk; }\<close>: the empty string is falsy.\<close>

definition yieldChunk :: "stream \<Rightarrow> string \<Rightarrow> stream" where
  "yieldChunk g chunk =
     (if chunk = [] then g
      else g\<lparr>yielded := yielded g @ [chunk], requests := requests g - 1\<rparr>)"

function whileLoop :: "stream \<Rightarrow> stream" where
  "whileLoop g =
     (if isComplete g \<or> error g \<noteq> None then finish g
      else case chunkPromises g of
        [] \<Rightarrow> g\<lparr>resolveChunk := True, rejectChunk := True, position := AwaitingChunk\<rparr>
      | chunk # rest \<Rightarrow>
          let g' = yieldChunk (g\<lparr>chunkPromises := rest\<rparr>) chunk
          in if chunk \<noteq> [] \<and> requests g' = 0 then g'\<lparr>position := AtYield\<rparr>
             else whileLoop g')"
  by pat_completeness auto
termination
  by (relation "measure (\<lambda>g. length (chunkPromises g))") (auto simp: yieldChunk_def)

declare whileLoop.simps [simp del]

text \<open>The body resumes from \<open>await new Promise(...)\<close> with a fragment.\<close>

definition afterAwait :: "stream \<Rightarrow> string \<Rightarrow> stream" where
  "afterAwait g chunk =
     (let g' = yieldChunk g chunk
      in if chunk \<noteq> [] \<and> requests g' = 0 then g'\<lparr>position := AtYield\<rparr> else whileLoop g')"

text \<open>The consumer calls \<open>next()\<close>.\<close>

definition next_request :: "stream \<Rightarrow> stream" where
  "next_request g =
     (case position g of
        NotStarted \<Rightarrow> whileLoop (g\<lparr>streamHandlersSet := True, requests := requests g + 1\<rparr>)
      | AtYield \<Rightarrow> whileLoop (g\<lparr>requests := requests g + 1\<rparr>)
      | AwaitingChunk \<Rightarrow> g\<lparr>requests := requests g + 1\<rparr>
      | Returned \<Rightarrow> g
      | Threw e \<Rightarrow> g)"

text \<open>The three handlers the generator body installs in \<open>streamHandlers\<close>.\<close>

definition chunkHandler :: "stream \<Rightarrow> string \<Rightarrow> stream" where
  "chunkHandler g c =
     (if resolveChunk g
      then (if position g = AwaitingChunk then afterAwait (g\<lparr>resolveChunk := False\<rparr>) c
            else g\<lparr>resolveChunk := False\<rparr>)
      else g\<lparr>chunkPromises := chunkPromises g @ [c]\<rparr>)"

definition completeHandler :: "stream \<Rightarrow> stream" where
  "completeHandler g =
     (if resolveChunk g \<and> position g = AwaitingChunk then finish (g\<lparr>isComplete := True\<rparr>)
      else g\<lparr>isComplete := True\<rparr>)"

definition errorHandler :: "stream \<Rightarrow> string \<Rightarrow> stream" where
  "errorHandler g m =
     (if rejectChunk g \<and> position g = AwaitingChunk then finish (g\<lparr>error := Some m\<rparr>)
      else g\<lparr>error := Some m\<rparr>)"

subsection \<open>\<open>promptStreaming\<close> and \<open>getUsageInfo\<close>\<close>

text \<open>
  \<open>promptStreaming\<close> returns a promise: rejected with an error message, or resolved with
  the stream. \<open>messages\<close> is the array \<open>_buildMessagesArray\<close> makes of the user message,
  the history and the context (system turn, history, user turn); only the request carries
  it, and its text plays no part below.
\<close>

definition promptStreaming :: "client \<Rightarrow> turn list \<Rightarrow> client \<times> (string + stream)" where
  "promptStreaming c messages =
     (let c1 = connect c
      in if \<not> hasActiveSession c1
         then (c1, Inl ''No active session. Call createSession() first.'')
         else (send (on (on (on c1 ''chunk'' StreamChunk) ''complete'' StreamComplete)
                      ''error'' StreamError)
                 (PromptStreaming messages),
               Inr newStream))"

definition getUsageInfo :: "client \<Rightarrow> client" where
  "getUsageInfo c = send (on (connect c) ''usage-info'' UsageInfoHandler) GetUsageInfo"

text \<open>
  The port listener: \<open>handler = _messageHandlers[message.type]; if (handler) handler(message)\<close>.
  The outer stream handlers forward to \<open>streamHandlers\<close> when the generator body has
  installed them; the outer complete and error handlers then remove all three entries.
\<close>

definition offStream :: "client \<Rightarrow> client" where
  "offStream c = off (off (off c ''chunk'') ''complete'') ''error''"

fun invoke :: "handler \<Rightarrow> client \<Rightarrow> stream \<Rightarrow> response \<Rightarrow> client \<times> stream" where
  "invoke StreamChunk c g (Chunk x) = (c, if streamHandlersSet g then chunkHandler g x else g)"
| "invoke StreamComplete c g m =
     (offStream c, if streamHandlersSet g then completeHandler g else g)"
| "invoke StreamError c g (Error m) =
     (offStream c, if streamHandlersSet g then errorHandler g m else g)"
| "invoke UsageInfoHandler c g (UsageInfo d) = ((off c ''usage-info'')\<lparr>usageInfo := Some d\<rparr>, g)"
| "invoke h c g m = (c, g)"

definition receive :: "client \<Rightarrow> stream \<Rightarrow> response \<Rightarrow> client \<times> stream" where
  "receive c g m =
     (case map_of (messageHandlers c) (type_of m) of
        None \<Rightarrow> (c, g)
      | Some h \<Rightarrow> invoke h c g m)"

text \<open>What happens on the UI side: a message arrives, or the consumer pulls.\<close>

datatype client_event = Receive response | Next

fun client_step :: "client \<times> stream \<Rightarrow> client_event \<Rightarrow> client \<times> stream" where
  "client_step (c, g) (Receive m) = receive c g m"
| "client_step (c, g) Next = (c, next_request g)"

definition client_run :: "client \<times> stream \<Rightarrow> client_event list \<Rightarrow> client \<times> stream" where
  "client_run cg evs = foldl client_step cg evs"

definition payloads :: "client_event list \<Rightarrow> string list" where
  "payloads evs = concat (map (\<lambda>e. case e of Receive (Chunk x) \<Rightarrow> [x] | _ \<Rightarrow> []) evs)"

text \<open>
  The consumer in \<open>AIChat.js\<close>: \<open>for await (const chunk of stream) { ... }\<close> with a
  body that does not await. It pulls once at the start and again as soon as it is handed
  a fragment, before the next message can arrive.
\<close>

definition forAwaitStep :: "client \<times> stream \<Rightarrow> response \<Rightarrow> client \<times> stream" where
  "forAwaitStep cg m =
     (let (c, g) = receive (fst cg) (snd cg) m
      in (c, if position g = AtYield then next_request g else g))"

definition forAwait :: "client \<times> stream \<Rightarrow> response list \<Rightarrow> client \<times> stream" where
  "forAwait cg ms = foldl forAwaitStep (fst cg, next_request (snd cg)) ms"

text \<open>
  The stream's handlers are registered and the generator stands at
  \<open>await new Promise(...)\<close> with one request outstanding and nothing buffered.
\<close>

definition waiting :: "client \<Rightarrow> stream \<Rightarrow> bool" where
  "waiting c g =
     (map_of (messageHandlers c) ''chunk'' = Some StreamChunk
      \<and> map_of (messageHandlers c) ''complete'' = Some StreamComplete
      \<and> streamHandlersSet g \<and> position g = AwaitingChunk \<and> requests g = 1
      \<and> chunkPromises g = [] \<and> resolveChunk g \<and> rejectChunk g
      \<and> \<not> isComplete g \<and> error g = None)"

section \<open>Client and server together, and states used in examples\<close>

text \<open>
  One \<open>getUsageInfo\<close> call answered: the client registers its handler and posts the
  request, the server's listener handles that request, and the client's listener
  receives what the server posted. The value is what the promise has resolved with.
\<close>

definition getUsageInfoAnswered :: "client \<Rightarrow> stream \<Rightarrow> server \<Rightarrow> usage_data option option" where
  "getUsageInfoAnswered c g st =
     (let c1 = getUsageInfo c;
          st1 = onMessage st (last (sent c1));
          (c2, g2) = receive c1 g (last (port st1))
      in usageInfo c2)"

text \<open>
  The spec's formula for the percentage, \<open>round(100 * inputUsage / inputQuota)\<close>, on the
  exact quotient.
\<close>

definition spec_percentUsed :: "nat \<Rightarrow> nat \<Rightarrow> int" where
  "spec_percentUsed u q = \<lfloor>100 * rat_of_nat u / rat_of_nat q + 1 / 2\<rfloor>"

text \<open>The server after one successful create-session whose handle has the given fields.\<close>

definition sessionWith :: "nat option \<Rightarrow> nat option \<Rightarrow> server" where
  "sessionWith u q =
     run initial [Message CreateSession, Provider 0 (AvailabilityIs ''available''),
                  Provider 0 (SessionIs u q)]"

text \<open>
  What a failed create-session leaves behind when handle \<open>h\<close> was the session before:
  one \<open>error\<close> message, no session, \<open>h\<close> destroyed, and no new handle.
\<close>

definition sessionDropped :: "server \<Rightarrow> nat \<Rightarrow> string \<Rightarrow> server \<Rightarrow> bool" where
  "sessionDropped st h msg st' =
     (port st' = port st @ [Error msg] \<and> promptAPISession st' = None
      \<and> destroyed (sessions st' ! h) \<and> length (sessions st') = length (sessions st))"

text \<open>The handles that exist and have not been destroyed.\<close>

definition live :: "server \<Rightarrow> nat list" where
  "live st = map fst (filter (\<lambda>(h, s). \<not> destroyed s) (enumerate 0 (sessions st)))"

text \<open>
  The signal a download-model or prompt-streaming task has passed to the provider (the
  signal of create-session belongs to a controller nothing else refers to), and the
  signals of unfinished tasks that have not been aborted.
\<close>

fun cancelable :: "task \<Rightarrow> nat option" where
  "cancelable (InitAvailabilityAwait Download c) = Some c"
| "cancelable (InitCreateAwait Download c) = Some c"
| "cancelable (StreamOpenAwait c) = Some c"
| "cancelable (StreamNextAwait c) = Some c"
| "cancelable t = None"

definition liveControllers :: "server \<Rightarrow> nat list" where
  "liveControllers st = filter (\<lambda>c. \<not> aborted st c) (List.map_filter cancelable (tasks st))"

text \<open>Every handle that has not been destroyed is the one the variable refers to.\<close>

definition oneLive :: "server \<Rightarrow> bool" where
  "oneLive st =
     (\<forall>h < length (sessions st). \<not> destroyed (sessions st ! h) \<longrightarrow> promptAPISession st = Some h)"

text \<open>The controller the variable refers to exists and has not been aborted.\<close>

definition controllerFresh :: "server \<Rightarrow> bool" where
  "controllerFresh st =
     (case promptAPIController st of None \<Rightarrow> True
      | Some c \<Rightarrow> c < length (controllers st) \<and> \<not> controllers st ! c)"

section \<open>Basic facts about the server's primitives\<close>

lemma port_postMessage: "port (postMessage st m) = port st @ [m]"
  by (simp add: postMessage_def)

lemma port_suspend: "port (suspend st i t) = port st"
  by (simp add: suspend_def)

lemma port_spawn: "port (spawn st t) = port st"
  by (simp add: spawn_def)

lemma tasks_postMessage: "tasks (postMessage st m) = tasks st"
  by (simp add: postMessage_def)

lemma tasks_spawn: "tasks (spawn st t) = tasks st @ [t]"
  by (simp add: spawn_def)

lemma tasks_suspend: "tasks (suspend st i t) = (tasks st)[i := t]"
  by (simp add: suspend_def)

lemma session_postMessage: "promptAPISession (postMessage st m) = promptAPISession st"
  by (simp add: postMessage_def)

lemma session_suspend: "promptAPISession (suspend st i t) = promptAPISession st"
  by (simp add: suspend_def)

lemma session_spawn: "promptAPISession (spawn st t) = promptAPISession st"
  by (simp add: spawn_def)

lemma sessions_postMessage: "sessions (postMessage st m) = sessions st"
  by (simp add: postMessage_def)

lemma sessions_suspend: "sessions (suspend st i t) = sessions st"
  by (simp add: suspend_def)

lemma sessions_spawn: "sessions (spawn st t) = sessions st"
  by (simp add: spawn_def)

lemmas server_simps =
  port_postMessage port_suspend port_spawn tasks_postMessage tasks_spawn tasks_suspend
  session_postMessage session_suspend session_spawn
  sessions_postMessage sessions_suspend sessions_spawn

section \<open>check-availability answers once, with one of five statuses\<close>

text \<open>
  C6. The mapping from the provider's availability value to a status is a total
  function into ready, needs-download, downloading and unavailable, and a value that is
  none of the four known ones gives unavailable with a message quoting it. A
  check-availability request posts exactly one message, an \<open>availability\<close> message:
  without \<open>LanguageModel\<close> at once (unavailable, no task left waiting); otherwise
  nothing until the query settles, then the mapped status when it fulfils and the status
  error when it rejects, after which the task is finished and nothing resumes it.
\<close>

theorem check_availability_total:
  fixes st :: server and v m :: string
  defines "i \<equiv> length (tasks st)"
  defines "st1 \<equiv> handleCheckAvailability st"
  shows "fst (availabilityStatus v) \<in> {''ready'', ''needs-download'', ''downloading'', ''unavailable''}
       \<and> (v \<notin> {''available'', ''downloadable'', ''downloading'', ''unavailable''} \<longrightarrow>
            availabilityStatus v =
              (''unavailable'',
               ''Gemini Nano status unknown. Availability returned: '' @ dquote @ v @ dquote))
       \<and> (\<not> languageModel st \<longrightarrow>
            port st1 = port st @ [Availability ''unavailable''
                ''Prompt API not supported - LanguageModel not found in self'']
            \<and> tasks st1 = tasks st)
       \<and> (languageModel st \<longrightarrow>
            port st1 = port st \<and> tasks st1 = tasks st @ [CheckAvailabilityAwait]
            \<and> port (resume st1 i (AvailabilityIs v))
                = port st @ [Availability (fst (availabilityStatus v)) (snd (availabilityStatus v))]
            \<and> port (resume st1 i (Rejects m)) = port st @ [Availability ''error'' (''Error: '' @ m)]
            \<and> (\<forall>r\<in>{AvailabilityIs v, Rejects m}.
                  tasks (resume st1 i r) = tasks st @ [Finished]
                  \<and> (\<forall>r'. resume (resume st1 i r) i r' = resume st1 i r)))"
proof -
  have known: "fst (availabilityStatus v)
      \<in> {''ready'', ''needs-download'', ''downloading'', ''unavailable''}"
    by simp
  have unknown: "v \<notin> {''available'', ''downloadable'', ''downloading'', ''unavailable''} \<longrightarrow>
      availabilityStatus v =
        (''unavailable'',
         ''Gemini Nano status unknown. Availability returned: '' @ dquote @ v @ dquote)"
    by simp
  have unsupported: "\<not> languageModel st \<longrightarrow>
      port st1 = port st @ [Availability ''unavailable''
          ''Prompt API not supported - LanguageModel not found in self'']
      \<and> tasks st1 = tasks st"
    by (simp add: st1_def handleCheckAvailability_def isPromptAPISupported_def server_simps)
  have supported: "port st1 = port st \<and> tasks st1 = tasks st @ [CheckAvailabilityAwait]
      \<and> port (resume st1 i (AvailabilityIs v))
          = port st @ [Availability (fst (availabilityStatus v)) (snd (availabilityStatus v))]
      \<and> port (resume st1 i (Rejects m)) = port st @ [Availability ''error'' (''Error: '' @ m)]
      \<and> (\<forall>r\<in>{AvailabilityIs v, Rejects m}.
            tasks (resume st1 i r) = tasks st @ [Finished]
            \<and> (\<forall>r'. resume (resume st1 i r) i r' = resume st1 i r))"
    if lm: "languageModel st"
  proof -
    have st1: "st1 = spawn st CheckAvailabilityAwait"
      using lm by (simp add: st1_def handleCheckAvailability_def isPromptAPISupported_def)
    have t: "i < length (tasks st1)" "tasks st1 ! i = CheckAvailabilityAwait"
      by (simp_all add: st1 i_def server_simps)
    have a: "resume st1 i (AvailabilityIs v) =
        suspend (postMessage st1 (Availability (fst (availabilityStatus v))
          (snd (availabilityStatus v)))) i Finished"
      using t by (simp add: resume_def case_prod_beta del: availabilityStatus.simps)
    have r: "resume st1 i (Rejects m) =
        suspend (postMessage st1 (Availability ''error'' (''Error: '' @ m))) i Finished"
      using t by (simp add: resume_def)
    have fin: "resume (suspend s i Finished) i r' = suspend s i Finished" for s r'
      by (simp add: resume_def suspend_def)
    have p1: "port st1 = port st" "tasks st1 = tasks st @ [CheckAvailabilityAwait]"
      by (simp_all add: st1 server_simps)
    have upd: "(tasks st @ [CheckAvailabilityAwait])[i := Finished] = tasks st @ [Finished]"
      by (simp add: i_def)
    show ?thesis
      by (simp add: a r fin p1 upd server_simps del: availabilityStatus.simps)
  qed
  from known unknown unsupported supported show ?thesis
    by blast
qed

theorem check_availability_total_witness:
  "''after-update'' \<notin> {''available'', ''downloadable'', ''downloading'', ''unavailable''}
   \<and> languageModel initial
   \<and> port (resume (handleCheckAvailability initial) 0 (AvailabilityIs ''after-update'')) =
     [Availability ''unavailable''
        (''Gemini Nano status unknown. Availability returned: '' @ dquote @ ''after-update''
           @ dquote)]
   \<and> port (resume (handleCheckAvailability initial) 0 (Rejects ''boom'')) =
     [Availability ''error'' ''Error: boom'']
   \<and> port (resume (resume (handleCheckAvailability initial) 0 (Rejects ''boom'')) 0
        (AvailabilityIs ''available'')) = [Availability ''error'' ''Error: boom'']
   \<and> \<not> languageModel (initial\<lparr>languageModel := False\<rparr>)
   \<and> port (handleCheckAvailability (initial\<lparr>languageModel := False\<rparr>)) =
     [Availability ''unavailable'' ''Prompt API not supported - LanguageModel not found in self'']"
  using check_availability_total [of "''after-update''" initial "''boom''"]
    check_availability_total [of "''after-update''" "initial\<lparr>languageModel := False\<rparr>" "''boom''"]
  by (simp add: initial_def)

section \<open>\<open>promptStreaming\<close> without an active session\<close>

text \<open>
  C2. When the client's active-session flag is false, \<open>promptStreaming\<close> rejects at once
  with the error "No active session. Call createSession() first.", posts nothing on the
  port and registers no handler. (It does open the port: \<open>_connect\<close> runs first.)
\<close>

theorem promptStreaming_without_session:
  assumes "\<not> hasActiveSession c"
  shows "snd (promptStreaming c messages) = Inl ''No active session. Call createSession() first.''
       \<and> sent (fst (promptStreaming c messages)) = sent c
       \<and> messageHandlers (fst (promptStreaming c messages)) = messageHandlers c"
  using assms by (simp add: promptStreaming_def connect_def Let_def)

theorem promptStreaming_without_session_witness:
  "\<not> hasActiveSession newClient
   \<and> promptStreaming newClient [Turn ''user'' ''hi''] =
       (newClient\<lparr>isConnected := True\<rparr>, Inl ''No active session. Call createSession() first.'')"
  using promptStreaming_without_session [of newClient "[Turn ''user'' ''hi'']"]
  by (simp add: newClient_def promptStreaming_def connect_def)

section \<open>The generator of the stream\<close>

lemma whileLoop_done:
  "isComplete g \<or> error g \<noteq> None \<Longrightarrow> whileLoop g = finish g"
  by (subst whileLoop.simps) simp

lemma whileLoop_wait:
  "\<not> isComplete g \<Longrightarrow> error g = None \<Longrightarrow> chunkPromises g = [] \<Longrightarrow>
   whileLoop g = g\<lparr>resolveChunk := True, rejectChunk := True, position := AwaitingChunk\<rparr>"
  by (subst whileLoop.simps) simp

lemma whileLoop_buffered:
  "\<not> isComplete g \<Longrightarrow> error g = None \<Longrightarrow> chunkPromises g = chunk # rest \<Longrightarrow>
   whileLoop g =
     (let g' = yieldChunk (g\<lparr>chunkPromises := rest\<rparr>) chunk
      in if chunk \<noteq> [] \<and> requests g' = 0 then g'\<lparr>position := AtYield\<rparr> else whileLoop g')"
  by (subst whileLoop.simps) simp

lemma yieldChunk_nonempty:
  "[] \<notin> set (yielded g) \<Longrightarrow> [] \<notin> set (yielded (yieldChunk g c))"
  by (simp add: yieldChunk_def)

lemma finish_yielded: "yielded (finish g) = yielded g"
  by (simp add: finish_def)

lemma whileLoop_nonempty:
  "[] \<notin> set (yielded g) \<Longrightarrow> [] \<notin> set (yielded (whileLoop g))"
proof (induction g rule: whileLoop.induct)
  case (1 g)
  show ?case
  proof (cases "isComplete g \<or> error g \<noteq> None")
    case True
    then show ?thesis using "1.prems" by (simp add: whileLoop_done finish_yielded)
  next
    case False
    then have nc: "\<not> isComplete g" "error g = None" by simp_all
    show ?thesis
    proof (cases "chunkPromises g")
      case Nil
      then show ?thesis using nc "1.prems" by (simp add: whileLoop_wait)
    next
      case (Cons chunk rest)
      let ?g' = "yieldChunk (g\<lparr>chunkPromises := rest\<rparr>) chunk"
      have y: "[] \<notin> set (yielded ?g')"
        using "1.prems" by (simp add: yieldChunk_nonempty)
      show ?thesis
      proof (cases "chunk \<noteq> [] \<and> requests ?g' = 0")
        case True
        then show ?thesis
          using y by (simp add: whileLoop_buffered [OF nc Cons] Let_def)
      next
        case stay: False
        have "[] \<notin> set (yielded (whileLoop ?g'))"
          using "1.IH" [OF False Cons refl stay y] .
        then show ?thesis
          using stay y by (auto simp: whileLoop_buffered [OF nc Cons] Let_def)
      qed
    qed
  qed
qed

lemma afterAwait_nonempty:
  "[] \<notin> set (yielded g) \<Longrightarrow> [] \<notin> set (yielded (afterAwait g c))"
  by (simp add: afterAwait_def Let_def whileLoop_nonempty yieldChunk_nonempty)

lemma next_request_nonempty:
  "[] \<notin> set (yielded g) \<Longrightarrow> [] \<notin> set (yielded (next_request g))"
  by (simp add: next_request_def whileLoop_nonempty split: position.split)

lemma chunkHandler_nonempty:
  "[] \<notin> set (yielded g) \<Longrightarrow> [] \<notin> set (yielded (chunkHandler g c))"
  by (simp add: chunkHandler_def afterAwait_nonempty)

lemma completeHandler_nonempty:
  "[] \<notin> set (yielded g) \<Longrightarrow> [] \<notin> set (yielded (completeHandler g))"
  by (simp add: completeHandler_def finish_yielded)

lemma errorHandler_nonempty:
  "[] \<notin> set (yielded g) \<Longrightarrow> [] \<notin> set (yielded (errorHandler g m))"
  by (simp add: errorHandler_def finish_yielded)

lemma invoke_nonempty:
  "[] \<notin> set (yielded g) \<Longrightarrow> [] \<notin> set (yielded (snd (invoke h c g m)))"
  by (cases "(h, c, g, m)" rule: invoke.cases)
     (simp_all add: chunkHandler_nonempty completeHandler_nonempty errorHandler_nonempty)

lemma client_step_nonempty:
  "[] \<notin> set (yielded (snd cg)) \<Longrightarrow> [] \<notin> set (yielded (snd (client_step cg e)))"
  by (cases cg; cases e)
     (simp_all add: receive_def invoke_nonempty next_request_nonempty split: option.split)

lemma client_run_nonempty:
  "[] \<notin> set (yielded (snd cg)) \<Longrightarrow> [] \<notin> set (yielded (snd (client_run cg evs)))"
  unfolding client_run_def
  by (induction evs arbitrary: cg) (simp_all add: client_step_nonempty)

text \<open>
  C9. Whatever messages arrive and whenever the consumer pulls, the stream returned by
  \<open>promptStreaming\<close> never yields the empty string: a \<open>chunk\<close> message with empty
  content is skipped by \<open>if (chunk) { yield chunk; }\<close>, on the buffered path and on the
  directly resolved path alike.
\<close>

theorem stream_never_yields_empty:
  "[] \<notin> set (yielded (snd (client_run (c, newStream) evs)))"
  by (rule client_run_nonempty) (simp add: newStream_def)

section \<open>A consumer that pulls at once loses nothing\<close>

lemma forAwaitStep_chunk:
  assumes "waiting c g"
  shows "forAwaitStep (c, g) (Chunk x) = (c, g\<lparr>yielded := yielded g @ (if x = [] then [] else [x])\<rparr>)"
  using assms
  by (simp add: waiting_def forAwaitStep_def receive_def chunkHandler_def afterAwait_def
      yieldChunk_def next_request_def whileLoop_wait Let_def)

lemma waiting_yielded: "waiting c (g\<lparr>yielded := ys\<rparr>) = waiting c g"
  by (simp add: waiting_def)

lemma forAwait_chunks:
  assumes "waiting c g"
  shows "foldl forAwaitStep (c, g) (map Chunk xs) = (c, g\<lparr>yielded := yielded g @ filter (\<lambda>x. x \<noteq> []) xs\<rparr>)"
  using assms
proof (induction xs arbitrary: g)
  case Nil
  then show ?case by simp
next
  case (Cons x xs)
  have w: "waiting c (g\<lparr>yielded := yielded g @ (if x = [] then [] else [x])\<rparr>)"
    using Cons.prems by (simp add: waiting_yielded)
  show ?case
    using Cons.IH [OF w] by (simp add: forAwaitStep_chunk [OF Cons.prems])
qed

lemma forAwaitStep_complete:
  assumes "waiting c g"
  shows "snd (forAwaitStep (c, g) Complete) = g\<lparr>isComplete := True, position := Returned, requests := 0\<rparr>"
  using assms
  by (simp add: waiting_def forAwaitStep_def receive_def completeHandler_def finish_def Let_def)

lemma waiting_start:
  "waiting (fst (promptStreaming activeClient ms)) (next_request newStream)"
  by (simp add: waiting_def promptStreaming_def activeClient_def newClient_def connect_def
      send_def on_def newStream_def next_request_def whileLoop_wait)

lemma for_await_consumer_gets_every_fragment:
  "yielded (snd (forAwait (fst (promptStreaming activeClient ms), newStream)
                   (map Chunk xs @ [Complete]))) = filter (\<lambda>x. x \<noteq> []) xs"
proof -
  define c0 where "c0 = fst (promptStreaming activeClient ms)"
  define g0 where "g0 = next_request newStream"
  define g1 where "g1 = g0\<lparr>yielded := yielded g0 @ filter (\<lambda>x. x \<noteq> []) xs\<rparr>"
  have w0: "waiting c0 g0"
    unfolding c0_def g0_def by (rule waiting_start)
  have y0: "yielded g0 = []"
    by (simp add: g0_def newStream_def next_request_def whileLoop_wait)
  have w1: "waiting c0 g1"
    unfolding g1_def using w0 by (simp only: waiting_yielded)
  have "forAwait (c0, newStream) (map Chunk xs @ [Complete]) = forAwaitStep (c0, g1) Complete"
    by (simp add: forAwait_def g0_def [symmetric] forAwait_chunks [OF w0] g1_def)
  then have "yielded (snd (forAwait (c0, newStream) (map Chunk xs @ [Complete]))) = yielded g1"
    by (simp add: forAwaitStep_complete [OF w1])
  then show ?thesis
    by (simp add: c0_def g1_def y0)
qed

text \<open>
  C1 fails on the code. The consumer pulls, fragment \<open>a\<close> arrives and is yielded; while
  the consumer is busy, fragment \<open>b\<close> arrives and is put into \<open>chunkPromises\<close>, then
  \<open>complete\<close> arrives and sets \<open>isComplete\<close>. On the next pull the loop condition
  \<open>!isComplete && !error\<close> is false, the generator returns, and \<open>b\<close> is still in the
  buffer: the yielded fragments are \<open>a\<close>, the payloads were \<open>a\<close>, \<open>b\<close>.
\<close>

theorem buffered_fragment_dropped_on_complete:
  "snd (promptStreaming activeClient msgs) = Inr newStream
   \<and> (let evs = [Next, Receive (Chunk ''a''), Receive (Chunk ''b''), Receive Complete, Next];
          g = snd (client_run (fst (promptStreaming activeClient msgs), newStream) evs)
      in payloads evs = [''a'', ''b''] \<and> yielded g = [''a''] \<and> position g = Returned
         \<and> chunkPromises g = [''b''])"
  by (simp add: promptStreaming_def activeClient_def newClient_def connect_def send_def on_def
      client_run_def receive_def newStream_def next_request_def whileLoop_wait
      chunkHandler_def afterAwait_def yieldChunk_def completeHandler_def offStream_def
      off_def payloads_def whileLoop_done finish_def)

section \<open>Rounding errors of the percentage\<close>

lemma round_even_error: "\<bar>of_int (round_even y) - y\<bar> \<le> 1 / 2"
proof -
  have "of_int \<lfloor>y\<rfloor> \<le> y" "y < of_int \<lfloor>y\<rfloor> + 1" by linarith+
  then show ?thesis
    by (auto simp: round_even_def Let_def)
qed

lemma powi2_diff: "(2::rat) powi (a - b) = 2 powi a / 2 powi b"
  by (rule power_int_diff) simp

lemma ilog2_bounds:
  assumes "0 < x"
  shows "2 powi (ilog2 x) \<le> x" and "x < 2 powi (ilog2 x + 1)"
proof -
  obtain p q where pq: "quotient_of x = (p, q)" by (cases "quotient_of x")
  then have q: "0 < q" and x: "x = of_int p / of_int q"
    by (auto simp: quotient_of_denom_pos quotient_of_div)
  with assms have p: "0 < p"
    by (simp add: zero_less_divide_iff)
  define bp bq where "bp = bitlen p" and "bq = bitlen q"
  have bp: "2 ^ nat (bp - 1) \<le> p" "p < 2 ^ nat bp" and bq: "2 ^ nat (bq - 1) \<le> q" "q < 2 ^ nat bq"
    using bitlen_bounds [OF p] bitlen_bounds [OF q] by (simp_all add: bp_def bq_def)
  have bp1: "1 \<le> bp" and bq1: "1 \<le> bq"
    using p q by (simp_all add: bp_def bq_def bitlen_alt_def)
  have pw: "(2::rat) powi k = 2 ^ nat k" if "0 \<le> k" for k
    using that by (simp add: power_int_def)
  have P: "(2::rat) powi (bp - 1) \<le> of_int p" "of_int p < (2::rat) powi bp"
    and Q: "(2::rat) powi (bq - 1) \<le> of_int q" "of_int q < (2::rat) powi bq"
  proof -
    have "(of_int (2 ^ nat (bp - 1)) :: rat) \<le> of_int p" using bp(1) by (simp only: of_int_le_iff)
    then show "(2::rat) powi (bp - 1) \<le> of_int p" using bp1 by (simp add: pw)
    have "(of_int p :: rat) < of_int (2 ^ nat bp)" using bp(2) by (simp only: of_int_less_iff)
    then show "of_int p < (2::rat) powi bp" using bp1 by (simp add: pw)
    have "(of_int (2 ^ nat (bq - 1)) :: rat) \<le> of_int q" using bq(1) by (simp only: of_int_le_iff)
    then show "(2::rat) powi (bq - 1) \<le> of_int q" using bq1 by (simp add: pw)
    have "(of_int q :: rat) < of_int (2 ^ nat bq)" using bq(2) by (simp only: of_int_less_iff)
    then show "of_int q < (2::rat) powi bq" using bq1 by (simp add: pw)
  qed
  define d where "d = bp - bq"
  have qpos: "(0::rat) < of_int q" using q by simp
  have lower: "(2::rat) powi (d - 1) \<le> x"
  proof -
    have "d - 1 = (bp - 1) - bq" by (simp add: d_def)
    then have "(2::rat) powi (d - 1) = 2 powi (bp - 1) / 2 powi bq"
      by (simp only: powi2_diff)
    also have "\<dots> \<le> of_int p / 2 powi bq"
      using P(1) by (simp add: divide_right_mono)
    also have "\<dots> \<le> of_int p / of_int q"
      using Q(2) qpos p by (simp add: frac_le)
    finally show ?thesis by (simp add: x)
  qed
  have upper: "x < (2::rat) powi (d + 1)"
  proof -
    have "x = of_int p / of_int q" by (rule x)
    also have "\<dots> < 2 powi bp / of_int q"
      using P(2) qpos by (simp add: divide_strict_right_mono)
    also have "\<dots> \<le> 2 powi bp / 2 powi (bq - 1)"
      using Q(1) by (simp add: frac_le)
    also have "\<dots> = (2::rat) powi (d + 1)"
    proof -
      have "d + 1 = bp - (bq - 1)" by (simp add: d_def)
      then show ?thesis by (simp only: powi2_diff)
    qed
    finally show ?thesis .
  qed
  have il: "ilog2 x = (if 2 powi d \<le> x then d else d - 1)"
    by (simp add: ilog2_def pq d_def bp_def bq_def)
  show "2 powi (ilog2 x) \<le> x" and "x < 2 powi (ilog2 x + 1)"
    using lower upper by (auto simp: il not_le)
qed

lemma fl_pos_error:
  assumes "0 < x"
  shows "\<bar>fl x - x\<bar> \<le> x / 2 ^ 53"
proof -
  define e where "e = ilog2 x - 52"
  define y where "y = x / 2 powi e"
  have pe: "(0::rat) < 2 powi e" by simp
  have flx: "fl x = of_int (round_even y) * 2 powi e"
    using assms by (simp add: fl_def e_def y_def Let_def)
  have xy: "x = y * 2 powi e"
    by (simp add: y_def)
  have "fl x - x = (of_int (round_even y) - y) * 2 powi e"
    by (simp add: flx y_def left_diff_distrib)
  then have "\<bar>fl x - x\<bar> = \<bar>of_int (round_even y) - y\<bar> * 2 powi e"
    by (simp add: abs_mult)
  also have "\<dots> \<le> 1 / 2 * 2 powi e"
    using round_even_error [of y] by (simp add: mult_right_mono)
  also have "\<dots> = 2 powi (ilog2 x) / 2 ^ 53"
  proof -
    have "(2::rat) powi e = 2 powi (ilog2 x) / 2 powi 52"
      unfolding e_def by (rule powi2_diff)
    then show ?thesis by simp
  qed
  also have "\<dots> \<le> x / 2 ^ 53"
    using ilog2_bounds(1) [OF assms] by (simp add: divide_right_mono)
  finally show ?thesis .
qed


lemma fl_zero: "fl 0 = 0"
  by (simp add: fl_def)

lemma floor_half: "\<lfloor>1 / 2 :: rat\<rfloor> = 0"
  by (rule floor_unique) simp_all

lemma percentUsed_zero: "percentUsed 0 q = 0"
  by (simp add: percentUsed_def js_div_def js_mul_def fl_zero Math_round_def floor_half)

lemma js_chain_error:
  assumes "0 < x"
  shows "\<bar>js_mul (fl x) 100 - 100 * x\<bar> \<le> 3 * (100 * x) / 2 ^ 53"
proof -
  define a where "a = fl x"
  define b where "b = fl (a * 100)"
  define t where "t = x / 2 ^ 53"
  have ea: "\<bar>a - x\<bar> \<le> t"
    unfolding a_def t_def by (rule fl_pos_error [OF assms])
  have tx: "t < x" using assms by (simp add: t_def field_simps)
  with ea have apos: "0 < a" by linarith
  from ea tx have a2: "a \<le> 2 * x" by linarith
  have "\<bar>b - a * 100\<bar> \<le> a * 100 / 2 ^ 53"
    unfolding b_def by (rule fl_pos_error) (use apos in simp)
  also have "\<dots> \<le> 2 * x * 100 / 2 ^ 53"
    using a2 by (simp add: divide_right_mono)
  also have "\<dots> = 200 * t" by (simp add: t_def)
  finally have eb: "\<bar>b - a * 100\<bar> \<le> 200 * t" .
  have "\<bar>b - 100 * x\<bar> = \<bar>(b - a * 100) + 100 * (a - x)\<bar>"
    by (simp add: algebra_simps)
  also have "\<dots> \<le> \<bar>b - a * 100\<bar> + \<bar>100 * (a - x)\<bar>"
    by (rule abs_triangle_ineq)
  also have "\<dots> = \<bar>b - a * 100\<bar> + 100 * \<bar>a - x\<bar>"
    by (subst abs_mult) simp
  also have "\<dots> \<le> 300 * t"
  proof -
    from ea have "100 * \<bar>a - x\<bar> \<le> 100 * t" by simp
    from add_mono [OF eb this] show ?thesis by simp
  qed
  also have "\<dots> = 3 * (100 * x) / 2 ^ 53" by (simp add: t_def)
  finally show ?thesis by (simp add: js_mul_def a_def b_def)
qed

lemma percentUsed_exact:
  fixes u q :: nat
  assumes q: "0 < q" and small: "600 * u < 2 ^ 53"
  defines "r \<equiv> 100 * rat_of_nat u / rat_of_nat q"
  shows "(rat_of_int \<lfloor>r + 1 / 2\<rfloor> \<noteq> r + 1 / 2 \<longrightarrow> percentUsed u q = \<lfloor>r + 1 / 2\<rfloor>)
       \<and> (percentUsed u q = \<lfloor>r + 1 / 2\<rfloor> \<or> percentUsed u q = \<lfloor>r + 1 / 2\<rfloor> - 1)"
proof (cases "u = 0")
  case True
  then show ?thesis by (simp add: percentUsed_zero r_def floor_half)
next
  case False
  define U Q where "U = rat_of_nat u" and "Q = rat_of_nat q"
  have Upos: "0 < U" and Qpos: "0 < Q" using False q by (simp_all add: U_def Q_def)
  define x where "x = U / Q"
  have xpos: "0 < x" using Upos Qpos by (simp add: x_def)
  have rx: "r = 100 * x" by (simp add: r_def x_def U_def Q_def)
  define b where "b = js_mul (js_div U Q) 100"
  have pb: "percentUsed u q = \<lfloor>b + 1 / 2\<rfloor>"
    by (simp add: percentUsed_def b_def U_def Q_def Math_round_def)
  have "\<bar>b - r\<bar> \<le> 3 * r / 2 ^ 53"
    unfolding b_def js_div_def rx using js_chain_error [OF xpos] by (simp add: x_def)
  moreover have "3 * r / 2 ^ 53 < 1 / (2 * Q)"
  proof -
    have "rat_of_nat (600 * u) < rat_of_nat (2 ^ 53)"
      using small by (simp only: of_nat_less_iff)
    then have "600 * U < 2 ^ 53" by (simp add: U_def)
    then show ?thesis using Qpos by (simp add: rx x_def field_simps)
  qed
  ultimately have near: "\<bar>b - r\<bar> < 1 / (2 * Q)" by linarith
  define k where "k = \<lfloor>r + 1 / 2\<rfloor>"
  have k1: "rat_of_int k \<le> r + 1 / 2" and k2: "r + 1 / 2 < rat_of_int k + 1"
    unfolding k_def by linarith+
  have Qone: "1 \<le> Q" using q by (simp add: Q_def)
  have half: "1 / (2 * Q) \<le> 1 / 2" using Qone by (simp add: field_simps)
  text \<open>below k + 1/2 with a margin\<close>
  have up: "r + 1 / (2 * Q) \<le> rat_of_int k + 1 / 2"
  proof -
    have "200 * U < (2 * rat_of_int k + 1) * Q"
      using k2 Qpos by (simp add: rx x_def field_simps)
    then have "rat_of_int (200 * int u) < rat_of_int ((2 * k + 1) * int q)"
      by (simp add: U_def Q_def)
    then have "200 * int u < (2 * k + 1) * int q" by (simp only: of_int_less_iff)
    then have "200 * int u + 1 \<le> (2 * k + 1) * int q" by simp
    then have "rat_of_int (200 * int u + 1) \<le> rat_of_int ((2 * k + 1) * int q)"
      by (simp only: of_int_le_iff)
    then have "200 * U + 1 \<le> (2 * rat_of_int k + 1) * Q" by (simp add: U_def Q_def)
    then show ?thesis using Qpos by (simp add: rx x_def field_simps)
  qed
  have lt: "b + 1 / 2 < rat_of_int k + 1" using near up by linarith
  have ge: "rat_of_int k - 1 \<le> b + 1 / 2" using near half k1 by linarith
  have either: "\<lfloor>b + 1 / 2\<rfloor> = k \<or> \<lfloor>b + 1 / 2\<rfloor> = k - 1"
  proof -
    have "k - 1 \<le> \<lfloor>b + 1 / 2\<rfloor>" using ge by (simp add: le_floor_iff)
    moreover have "\<lfloor>b + 1 / 2\<rfloor> < k + 1" unfolding floor_less_iff using lt by simp
    ultimately show ?thesis by linarith
  qed
  have exact: "\<lfloor>b + 1 / 2\<rfloor> = k" if nt: "rat_of_int k \<noteq> r + 1 / 2"
  proof -
    from nt k1 have "rat_of_int k < r + 1 / 2" by simp
    then have "(2 * rat_of_int k - 1) * Q < 200 * U"
      using Qpos by (simp add: rx x_def field_simps)
    then have "rat_of_int ((2 * k - 1) * int q) < rat_of_int (200 * int u)"
      by (simp add: U_def Q_def)
    then have "(2 * k - 1) * int q < 200 * int u" by (simp only: of_int_less_iff)
    then have "(2 * k - 1) * int q + 1 \<le> 200 * int u" by simp
    then have "rat_of_int ((2 * k - 1) * int q + 1) \<le> rat_of_int (200 * int u)"
      by (simp only: of_int_le_iff)
    then have "(2 * rat_of_int k - 1) * Q + 1 \<le> 200 * U" by (simp add: U_def Q_def)
    then have "((2 * rat_of_int k - 1) * Q + 1) / (2 * Q) \<le> 200 * U / (2 * Q)"
      by (rule divide_right_mono) (use Qpos in simp_all)
    moreover have "((2 * rat_of_int k - 1) * Q + 1) / (2 * Q) = rat_of_int k - 1 / 2 + 1 / (2 * Q)"
      using Qpos by (simp add: field_simps)
    moreover have "200 * U / (2 * Q) = r"
      by (simp add: rx x_def)
    ultimately have "rat_of_int k - 1 / 2 + 1 / (2 * Q) \<le> r" by simp
    then have "rat_of_int k \<le> b + 1 / 2" using near by linarith
    then have "k \<le> \<lfloor>b + 1 / 2\<rfloor>" by (simp add: le_floor_iff)
    moreover have "\<lfloor>b + 1 / 2\<rfloor> < k + 1" unfolding floor_less_iff using lt by simp
    ultimately show ?thesis by linarith
  qed
  show ?thesis
    using either exact by (auto simp: pb k_def)
qed

lemma percentUsed_410_4096: "percentUsed 410 4096 = 10"
proof -
  have d1: "js_div 410 4096 = 205 / 2048"
    by code_simp
  have d2: "js_mul (205 / 2048) 100 = 5125 / 512"
    by code_simp
  have d3: "Math_round (5125 / 512) = 10"
    by code_simp
  show ?thesis
    unfolding percentUsed_def of_nat_numeral d1 d2 d3 ..
qed

lemma percentUsed_23_40: "percentUsed 23 40 = 57"
proof -
  have d1: "js_div 23 40 = 2589569785738035 / 4503599627370496"
    by code_simp
  have d2: "js_mul (2589569785738035 / 4503599627370496) 100
      = 8092405580431359 / 140737488355328"
    by code_simp
  have d3: "Math_round (8092405580431359 / 140737488355328) = 57"
    by code_simp
  show ?thesis
    unfolding percentUsed_def of_nat_numeral d1 d2 d3 ..
qed

lemma spec_percentUsed_23_40: "spec_percentUsed 23 40 = 58"
  unfolding spec_percentUsed_def of_nat_numeral by code_simp

section \<open>Usage information\<close>

lemma sessionWith_eq:
  "sessionWith u q =
     \<lparr>languageModel = True, promptAPISession = Some 0, promptAPIController = None,
      sessions = [\<lparr>destroyed = False, inputUsage = u, inputQuota = q\<rparr>],
      controllers = [False], tasks = [Finished], port = [SessionCreated]\<rparr>"
  by (simp add: sessionWith_def run_def initial_def handleCreateSession_def
      isPromptAPISupported_def destroyExisting_def newAbortController_def spawn_def
      resume_def suspend_def postMessage_def)

lemma getUsageInfoAnswered_eq:
  "last (port (handleGetUsageInfo st)) = UsageInfo d \<Longrightarrow> getUsageInfoAnswered c g st = Some d"
  by (simp add: getUsageInfoAnswered_def getUsageInfo_def send_def connect_def on_def
      receive_def update_conv' off_def)

lemma handleGetUsageInfo_None:
  "promptAPISession st = None \<Longrightarrow> port (handleGetUsageInfo st) = port st @ [UsageInfo None]"
  by (simp add: handleGetUsageInfo_def server_simps)

lemma handleGetUsageInfo_Some:
  "promptAPISession st = Some h \<Longrightarrow>
   port (handleGetUsageInfo st) =
     port st @ [UsageInfo (Some (UsageData
        (or_default (inputUsage (sessions st ! h)) 0)
        (or_default (inputQuota (sessions st ! h)) 4096)
        (percentUsed (or_default (inputUsage (sessions st ! h)) 0)
                     (or_default (inputQuota (sessions st ! h)) 4096))))]"
  by (simp add: handleGetUsageInfo_def server_simps Let_def)

lemma or_default_pos: "0 < d \<Longrightarrow> 0 < or_default x d"
  by (cases x) simp_all

text \<open>
  C7 as stated fails on the code. The handler computes
  \<open>Math.round((inputUsage / inputQuota) * 100)\<close> in double precision: the quotient is
  rounded, then the product. With inputUsage 23 and inputQuota 40 the exact percentage
  is 57.5, which rounds to 58; the double quotient is slightly below 0.575, the product
  is 57.49999999999999, and \<open>getUsageInfo\<close> resolves with percentUsed 57.
\<close>

theorem percentUsed_not_exactly_rounded:
  "getUsageInfoAnswered newClient newStream (sessionWith (Some 23) (Some 40))
     = Some (Some (UsageData 23 40 57))
   \<and> spec_percentUsed 23 40 = 58"
  by (simp add: getUsageInfoAnswered_eq handleGetUsageInfo_Some sessionWith_eq postMessage_def
        percentUsed_23_40 spec_percentUsed_23_40)


text \<open>
  C7, amended. \<open>getUsageInfo\<close> resolves with null when the server has no session
  handle. Otherwise it resolves with inputUsage, inputQuota (each after its default)
  and percentUsed, the \<open>Math.round\<close> of the double-precision product of the
  double-precision quotient and 100. For inputUsage below \<open>2^53 / 600\<close> that is
  \<open>round(100 * inputUsage / inputQuota)\<close> whenever the exact percentage is not half-way
  between two integers, and at a half-way value it is that or one less. For 410 of 4096
  it is 10.
\<close>

theorem getUsageInfo_resolves:
  fixes st :: server and c :: client and g :: stream and h :: nat
  shows "(promptAPISession st = None \<longrightarrow> getUsageInfoAnswered c g st = Some None)
       \<and> (promptAPISession st = Some h \<longrightarrow>
           (let u = or_default (inputUsage (sessions st ! h)) 0;
                q = or_default (inputQuota (sessions st ! h)) 4096;
                r = 100 * rat_of_nat u / rat_of_nat q
            in \<exists>p. getUsageInfoAnswered c g st = Some (Some (UsageData u q p))
                 \<and> p = Math_round (js_mul (js_div (rat_of_nat u) (rat_of_nat q)) 100)
                 \<and> (600 * u < 2 ^ 53 \<longrightarrow>
                      (rat_of_int (spec_percentUsed u q) \<noteq> r + 1 / 2 \<longrightarrow> p = spec_percentUsed u q)
                      \<and> (p = spec_percentUsed u q \<or> p = spec_percentUsed u q - 1))))
       \<and> percentUsed 410 4096 = 10"
proof (intro conjI impI)
  assume "promptAPISession st = None"
  then show "getUsageInfoAnswered c g st = Some None"
    by (simp add: getUsageInfoAnswered_eq handleGetUsageInfo_None)
next
  assume s: "promptAPISession st = Some h"
  define u where "u = or_default (inputUsage (sessions st ! h)) 0"
  define q where "q = or_default (inputQuota (sessions st ! h)) 4096"
  have q: "0 < q" unfolding q_def by (rule or_default_pos) simp
  have a: "getUsageInfoAnswered c g st = Some (Some (UsageData u q (percentUsed u q)))"
    by (rule getUsageInfoAnswered_eq) (simp add: handleGetUsageInfo_Some [OF s] u_def q_def)
  have e: "600 * u < 2 ^ 53 \<Longrightarrow>
      (rat_of_int (spec_percentUsed u q) \<noteq> 100 * rat_of_nat u / rat_of_nat q + 1 / 2
         \<longrightarrow> percentUsed u q = spec_percentUsed u q)
      \<and> (percentUsed u q = spec_percentUsed u q \<or> percentUsed u q = spec_percentUsed u q - 1)"
    unfolding spec_percentUsed_def by (rule percentUsed_exact [OF q])
  show "let u = or_default (inputUsage (sessions st ! h)) 0;
            q = or_default (inputQuota (sessions st ! h)) 4096;
            r = 100 * rat_of_nat u / rat_of_nat q
        in \<exists>p. getUsageInfoAnswered c g st = Some (Some (UsageData u q p))
             \<and> p = Math_round (js_mul (js_div (rat_of_nat u) (rat_of_nat q)) 100)
             \<and> (600 * u < 2 ^ 53 \<longrightarrow>
                  (rat_of_int (spec_percentUsed u q) \<noteq> r + 1 / 2 \<longrightarrow> p = spec_percentUsed u q)
                  \<and> (p = spec_percentUsed u q \<or> p = spec_percentUsed u q - 1))"
    unfolding Let_def u_def [symmetric] q_def [symmetric]
    using a e by (auto simp: percentUsed_def)
next
  show "percentUsed 410 4096 = 10" by (rule percentUsed_410_4096)
qed

theorem getUsageInfo_resolves_witness:
  "promptAPISession initial = None
   \<and> getUsageInfoAnswered newClient newStream initial = Some None
   \<and> promptAPISession (sessionWith (Some 410) (Some 4096)) = Some 0
   \<and> 600 * 410 < (2::nat) ^ 53
   \<and> rat_of_int (spec_percentUsed 410 4096) \<noteq> 100 * rat_of_nat 410 / rat_of_nat 4096 + 1 / 2
   \<and> getUsageInfoAnswered newClient newStream (sessionWith (Some 410) (Some 4096))
       = Some (Some (UsageData 410 4096 10))
   \<and> spec_percentUsed 410 4096 = 10"
proof -
  have sp: "spec_percentUsed 410 4096 = 10"
    unfolding spec_percentUsed_def of_nat_numeral by code_simp
  have p: "Math_round (js_mul (js_div 410 4096) 100) = 10"
    using percentUsed_410_4096 by (simp add: percentUsed_def)
  show ?thesis
    using getUsageInfo_resolves [of initial newClient newStream 0]
      getUsageInfo_resolves [of "sessionWith (Some 410) (Some 4096)" newClient newStream 0]
    by (simp add: initial_def sessionWith_eq sp p)
qed

section \<open>Defaults in the usage information\<close>

text \<open>
  C10. With a session handle present, get-usage-info reports inputUsage as 0 when
  the handle's field is absent or 0, and inputQuota as 4096 when the field is absent or 0;
  any other value is reported as it is. So the reported quota is never 0, and the divisor
  of the percentage is never 0.
\<close>

theorem usage_info_defaults:
  assumes "promptAPISession st = Some h"
  shows "\<exists>u q. port (handleGetUsageInfo st)
             = port st @ [UsageInfo (Some (UsageData u q
                 (Math_round (js_mul (js_div (rat_of_nat u) (rat_of_nat q)) 100))))]
           \<and> u = (case inputUsage (sessions st ! h) of None \<Rightarrow> 0 | Some n \<Rightarrow> n)
           \<and> q = (case inputQuota (sessions st ! h) of None \<Rightarrow> 4096
                  | Some n \<Rightarrow> if n = 0 then 4096 else n)
           \<and> q \<noteq> 0 \<and> rat_of_nat q \<noteq> 0"
  by (simp add: handleGetUsageInfo_Some [OF assms] percentUsed_def split: option.split)

theorem usage_info_defaults_witness:
  "promptAPISession (sessionWith None (Some 0)) = Some 0
   \<and> port (handleGetUsageInfo (sessionWith None (Some 0)))
       = [SessionCreated, UsageInfo (Some (UsageData 0 4096 0))]"
  using usage_info_defaults [of "sessionWith None (Some 0)" 0] percentUsed_zero [of 4096]
  by (simp add: sessionWith_eq percentUsed_def)

section \<open>A create-session that fails\<close>

lemma sessions_newAbortController:
  "sessions (snd (newAbortController st)) = sessions st"
  "promptAPISession (snd (newAbortController st)) = promptAPISession st"
  "port (snd (newAbortController st)) = port st"
  "tasks (snd (newAbortController st)) = tasks st"
  by (simp_all add: newAbortController_def)

lemma destroyExisting_Some:
  assumes "promptAPISession st = Some h" "h < length (sessions st)"
  shows "promptAPISession (destroyExisting st) = None"
    and "destroyed (sessions (destroyExisting st) ! h)"
    and "length (sessions (destroyExisting st)) = length (sessions st)"
    and "port (destroyExisting st) = port st"
    and "tasks (destroyExisting st) = tasks st"
  using assms by (simp_all add: destroyExisting_def destroy_def)

lemma handleCreateSession_start:
  assumes "languageModel st" "promptAPISession st = Some h" "h < length (sessions st)"
  shows "promptAPISession (handleCreateSession st) = None"
    and "destroyed (sessions (handleCreateSession st) ! h)"
    and "length (sessions (handleCreateSession st)) = length (sessions st)"
    and "port (handleCreateSession st) = port st"
    and "tasks (handleCreateSession st) =
           tasks st @ [InitAvailabilityAwait Create (length (controllers (destroyExisting st)))]"
  using assms
  by (simp_all add: handleCreateSession_def isPromptAPISupported_def case_prod_beta
      server_simps sessions_newAbortController destroyExisting_Some)
     (simp add: newAbortController_def)

text \<open>
  C8. The server has a session \<open>h\<close> and receives create-session. The handler destroys
  \<open>h\<close> and clears the variable before it awaits the provider. If the provider then
  fails (the availability query rejects, or reports \<open>unavailable\<close>, or the creation
  rejects) the handler posts one \<open>error\<close> and the server has no session: \<open>h\<close> stays
  destroyed and is not restored, and no new handle exists.
\<close>

theorem failed_create_session_leaves_no_session:
  assumes "languageModel st" and "promptAPISession st = Some h" and "h < length (sessions st)"
    and "i = length (tasks st)"
  shows "sessionDropped st h m (run st [Message CreateSession, Provider i (Rejects m)])
       \<and> sessionDropped st h ''AI Model is not available on this device.''
           (run st [Message CreateSession, Provider i (AvailabilityIs ''unavailable'')])
       \<and> (v \<noteq> ''unavailable'' \<longrightarrow>
           sessionDropped st h m
             (run st [Message CreateSession, Provider i (AvailabilityIs v),
                      Provider i (Rejects m)]))"
  using assms(4) handleCreateSession_start [OF assms(1-3)]
  by (simp add: run_def resume_def sessionDropped_def server_simps)

theorem failed_create_session_leaves_no_session_witness:
  "languageModel (sessionWith (Some 0) (Some 4096))
   \<and> promptAPISession (sessionWith (Some 0) (Some 4096)) = Some 0
   \<and> \<not> destroyed (sessions (sessionWith (Some 0) (Some 4096)) ! 0)
   \<and> ''available'' \<noteq> ''unavailable''
   \<and> (let st' = run (sessionWith (Some 0) (Some 4096))
                   [Message CreateSession, Provider 1 (AvailabilityIs ''available''),
                    Provider 1 (Rejects ''The session cannot be created.'')]
      in port st' = [SessionCreated, Error ''The session cannot be created.'']
         \<and> promptAPISession st' = None \<and> destroyed (sessions st' ! 0)
         \<and> length (sessions st') = 1)"
  using failed_create_session_leaves_no_session
    [of "sessionWith (Some 0) (Some 4096)" 0 1 "''The session cannot be created.''" "''available''"]
  by (simp add: sessionWith_eq sessionDropped_def)


lemmas handler_defs =
  handleCheckAvailability_def handleDownloadModel_def handleCreateSession_def
  handlePromptStreaming_def handleGetUsageInfo_def handleDestroySession_def
  isPromptAPISupported_def destroyExisting_def abortExisting_def newAbortController_def
  abort_def aborted_def destroy_def spawn_def suspend_def postMessage_def
  streamFinally_def streamCatch_def resume_def


section \<open>The controller variable never holds an aborted controller\<close>

text \<open>
  Every \<open>abort()\<close> in the file is followed at once by an assignment to
  \<open>promptAPIController\<close>: a fresh controller in the two cancelable handlers, \<open>null\<close> in
  destroy-session. So the test \<open>promptAPIController.signal.aborted\<close> in the streaming
  loop is never true; it reads the controller of whichever operation started last, not
  the one the running operation created.
\<close>

lemma controllerFresh_simps:
  "controllerFresh (postMessage st m) = controllerFresh st"
  "controllerFresh (spawn st t) = controllerFresh st"
  "controllerFresh (suspend st i t) = controllerFresh st"
  "controllerFresh (destroyExisting st) = controllerFresh st"
  "controllerFresh (st\<lparr>promptAPIController := None\<rparr>)"
  "controllerFresh ((snd (newAbortController st))\<lparr>promptAPIController := Some (fst (newAbortController st))\<rparr>)"
  by (simp_all add: controllerFresh_def postMessage_def spawn_def suspend_def
      destroyExisting_def destroy_def newAbortController_def split: option.split)

lemma controllerFresh_newAbortController:
  "controllerFresh st \<Longrightarrow> controllerFresh (snd (newAbortController st))"
  by (auto simp: controllerFresh_def newAbortController_def nth_append split: option.splits)

lemma controllerFresh_onMessage:
  assumes "controllerFresh st"
  shows "controllerFresh (onMessage st m)"
proof (cases m)
  case DestroySession
  then show ?thesis
    using assms
    by (simp add: handleDestroySession_def Let_def controllerFresh_simps split: option.split)
qed (use assms in \<open>simp_all add: handleCheckAvailability_def handleDownloadModel_def handleCreateSession_def
      handlePromptStreaming_def handleGetUsageInfo_def case_prod_beta Let_def
      controllerFresh_simps controllerFresh_newAbortController split: option.split\<close>)

lemma controllerFresh_initFailed:
  "controllerFresh st \<Longrightarrow> controllerFresh (initFailed k st i m)"
  by (cases k) (simp_all add: controllerFresh_simps)

lemma controllerFresh_initSucceeded:
  "controllerFresh st \<Longrightarrow> controllerFresh (initSucceeded k st i)"
  by (cases k) (simp_all add: controllerFresh_simps)

lemma controllerFresh_stream:
  "controllerFresh (streamFinally st i)" "controllerFresh (streamCatch st i m)"
  by (simp_all add: streamFinally_def streamCatch_def controllerFresh_simps)

lemma controllerFresh_resumeTask:
  assumes "controllerFresh st"
  shows "controllerFresh (resumeTask t st i r)"
proof (cases t)
  case CheckAvailabilityAwait
  then show ?thesis using assms
    by (cases r) (simp_all add: controllerFresh_simps case_prod_beta del: availabilityStatus.simps)
next
  case (InitAvailabilityAwait k c)
  then show ?thesis using assms
    by (cases r) (simp_all add: controllerFresh_simps controllerFresh_initFailed)
next
  case (InitCreateAwait k c)
  have "controllerFresh (st\<lparr>sessions := ss, promptAPISession := s\<rparr>)" for ss s
    using assms by (simp add: controllerFresh_def split: option.splits)
  with InitCreateAwait show ?thesis using assms
    by (cases r)
       (simp_all add: controllerFresh_simps controllerFresh_initFailed controllerFresh_initSucceeded)
next
  case (StreamOpenAwait c)
  then show ?thesis using assms
    by (cases r) (simp_all add: controllerFresh_simps controllerFresh_stream)
next
  case (StreamNextAwait c)
  then show ?thesis using assms
    by (cases r) (simp_all add: controllerFresh_simps controllerFresh_stream split: option.split)
next
  case Finished
  then show ?thesis using assms by simp
qed

lemma controllerFresh_step: "controllerFresh st \<Longrightarrow> controllerFresh (step st ev)"
  by (cases ev) (simp_all add: controllerFresh_onMessage resume_def controllerFresh_resumeTask)

lemma controllerFresh_run: "controllerFresh st \<Longrightarrow> controllerFresh (run st evs)"
  unfolding run_def by (induction evs arbitrary: st) (simp_all add: controllerFresh_step)

lemma controllerFresh_initial: "controllerFresh (run initial evs)"
  by (rule controllerFresh_run) (simp add: controllerFresh_def initial_def)

lemma abort_check_never_fires:
  assumes "controllerFresh st" and "i < length (tasks st)" and "tasks st ! i = StreamNextAwait c"
  shows "port (resume st i (Fragment x)) =
           port st @ [if promptAPIController st = None then Error nullSignalTypeError else Chunk x]"
    and "port (resume st i StreamEnd) =
           port st @ [if promptAPIController st = None then Error nullSignalTypeError else Complete]"
  using assms
  by (auto simp: controllerFresh_def resume_def aborted_def streamCatch_def streamFinally_def
      server_simps split: option.splits)

text \<open>
  C3 fails on the code. A stream is running (task 1, controller 1) and has posted
  \<open>a\<close>. A second prompt-streaming request arrives: the handler aborts controller 1 and
  stores the new controller 2 in \<open>promptAPIController\<close>. When the provider hands the
  first operation another fragment and then ends its stream, the loop of the first
  operation tests \<open>promptAPIController.signal.aborted\<close>, which is the signal of
  controller 2, and posts chunk \<open>b\<close> and \<open>complete\<close> for the aborted operation.
\<close>

theorem aborted_stream_keeps_posting:
  "(let st1 = run (sessionWith (Some 0) (Some 4096))
                [Message (PromptStreaming [Turn ''user'' ''first'']), Provider 1 StreamIs,
                 Provider 1 (Fragment ''a''), Message (PromptStreaming [Turn ''user'' ''second''])];
        st2 = run st1 [Provider 1 (Fragment ''b''), Provider 1 StreamEnd]
    in tasks st1 = [Finished, StreamNextAwait 1, StreamOpenAwait 2]
       \<and> aborted st1 1 \<and> port st1 = [SessionCreated, Chunk ''a'']
       \<and> port st2 = [SessionCreated, Chunk ''a'', Chunk ''b'', Complete])"
  by (simp add: sessionWith_eq run_def handler_defs)

section \<open>Live session handles\<close>

text \<open>
  Every step keeps \<open>oneLive\<close> except one: \<open>promptAPISession = await initPromptAPISession(...)\<close>
  completing while the variable holds a handle. create-session clears the variable
  before it awaits, so a create-session that runs alone keeps the property.
\<close>

lemma oneLive_simps:
  "oneLive (postMessage st m) = oneLive st"
  "oneLive (spawn st t) = oneLive st"
  "oneLive (suspend st i t) = oneLive st"
  "oneLive (st\<lparr>promptAPIController := x\<rparr>) = oneLive st"
  "oneLive (snd (newAbortController st)) = oneLive st"
  "oneLive (abortExisting st) = oneLive st"
  "oneLive (abort st c) = oneLive st"
  by (simp_all add: oneLive_def postMessage_def spawn_def suspend_def newAbortController_def
      abortExisting_def abort_def split: option.split)

lemma oneLive_destroyExisting:
  assumes "oneLive st"
  shows "oneLive (destroyExisting st)"
proof (cases "promptAPISession st")
  case None
  then show ?thesis using assms by (simp add: destroyExisting_def)
next
  case (Some s)
  have "destroyed ((sessions st)[s := (sessions st ! s)\<lparr>destroyed := True\<rparr>] ! h)"
    if "h < length (sessions st)" for h
  proof (cases "h = s")
    case True
    then show ?thesis using that by simp
  next
    case False
    then have "destroyed (sessions st ! h)"
      using assms Some that by (auto simp: oneLive_def)
    then show ?thesis using False by simp
  qed
  then show ?thesis
    using Some by (simp add: oneLive_def destroyExisting_def destroy_def)
qed

lemma oneLive_onMessage:
  assumes "oneLive st"
  shows "oneLive (onMessage st m)"
  using assms
  by (cases m)
     (simp_all add: handleCheckAvailability_def handleDownloadModel_def handleCreateSession_def
       handlePromptStreaming_def handleGetUsageInfo_def handleDestroySession_def
       case_prod_beta Let_def oneLive_simps oneLive_destroyExisting split: option.split)

lemma oneLive_initFailed: "oneLive (initFailed k st i m) = oneLive st"
  by (cases k) (simp_all add: oneLive_simps)

lemma oneLive_initSucceeded: "oneLive (initSucceeded k st i) = oneLive st"
  by (cases k) (simp_all add: oneLive_simps)

lemma oneLive_stream:
  "oneLive (streamFinally st i) = oneLive st" "oneLive (streamCatch st i m) = oneLive st"
  by (simp_all add: streamFinally_def streamCatch_def oneLive_simps)

lemma oneLive_new_session:
  assumes "oneLive st" and "promptAPISession st = None"
  shows "oneLive (st\<lparr>sessions := sessions st @ [\<lparr>destroyed = False, inputUsage = u, inputQuota = q\<rparr>],
                     promptAPISession := Some (length (sessions st))\<rparr>)"
  using assms by (auto simp: oneLive_def nth_append)

lemma oneLive_resumeTask:
  assumes "oneLive st"
    and "\<And>k c u q. t = InitCreateAwait k c \<Longrightarrow> r = SessionIs u q \<Longrightarrow> promptAPISession st = None"
  shows "oneLive (resumeTask t st i r)"
proof (cases t)
  case CheckAvailabilityAwait
  then show ?thesis using assms(1)
    by (cases r) (simp_all add: oneLive_simps case_prod_beta del: availabilityStatus.simps)
next
  case (InitAvailabilityAwait k c)
  then show ?thesis using assms(1)
    by (cases r) (simp_all add: oneLive_simps oneLive_initFailed)
next
  case (InitCreateAwait k c)
  then show ?thesis using assms
    by (cases r)
       (simp_all add: oneLive_simps oneLive_initFailed oneLive_initSucceeded oneLive_new_session)
next
  case (StreamOpenAwait c)
  then show ?thesis using assms(1)
    by (cases r) (simp_all add: oneLive_simps oneLive_stream)
next
  case (StreamNextAwait c)
  then show ?thesis using assms(1)
    by (cases r) (simp_all add: oneLive_simps oneLive_stream split: option.split)
next
  case Finished
  then show ?thesis using assms(1) by simp
qed


lemma oneLive_step:
  assumes "oneLive st"
    and "\<And>i k c u q. ev = Provider i (SessionIs u q) \<Longrightarrow> i < length (tasks st) \<Longrightarrow>
           tasks st ! i = InitCreateAwait k c \<Longrightarrow> promptAPISession st = None"
  shows "oneLive (step st ev)"
proof (cases ev)
  case (Message m)
  then show ?thesis using assms(1) by (simp add: oneLive_onMessage)
next
  case (Provider i r)
  show ?thesis
  proof (cases "i < length (tasks st)")
    case True
    have "oneLive (resumeTask (tasks st ! i) st i r)"
      using assms(1)
    proof (rule oneLive_resumeTask)
      fix k c u q
      assume "tasks st ! i = InitCreateAwait k c" and "r = SessionIs u q"
      then show "promptAPISession st = None"
        using assms(2) [of i u q k c] Provider True by simp
    qed
    then show ?thesis using Provider True by (simp add: resume_def)
  next
    case False
    then show ?thesis using Provider assms(1) by (simp add: resume_def)
  qed
qed

lemma create_session_alone_keeps_oneLive:
  assumes "oneLive st" and "languageModel st"
  shows "oneLive (run st [Message CreateSession,
                          Provider (length (tasks st)) (AvailabilityIs v),
                          Provider (length (tasks st)) (SessionIs u q)])"
proof -
  define i where "i = length (tasks st)"
  define st1 where "st1 = handleCreateSession st"
  define c where "c = length (controllers (destroyExisting st))"
  have s1: "promptAPISession st1 = None"
    using assms(2)
    by (simp add: st1_def handleCreateSession_def isPromptAPISupported_def case_prod_beta
        server_simps newAbortController_def destroyExisting_def split: option.split)
  have t1: "tasks st1 = tasks st @ [InitAvailabilityAwait Create c]"
    using assms(2)
    by (simp add: st1_def c_def handleCreateSession_def isPromptAPISupported_def case_prod_beta
        server_simps newAbortController_def destroyExisting_def destroy_def split: option.split)
  have o1: "oneLive st1"
    unfolding st1_def using oneLive_onMessage [OF assms(1), of CreateSession] by simp
  show ?thesis
  proof (cases "v = ''unavailable''")
    case True
    then have "run st [Message CreateSession, Provider i (AvailabilityIs v),
        Provider i (SessionIs u q)] = initFailed Create st1 i ''AI Model is not available on this device.''"
      using t1 by (simp add: run_def resume_def st1_def [symmetric] i_def server_simps)
    then show ?thesis using o1 by (simp add: i_def oneLive_simps)
  next
    case False
    then have "run st [Message CreateSession, Provider i (AvailabilityIs v),
        Provider i (SessionIs u q)] =
        initSucceeded Create
          ((suspend st1 i (InitCreateAwait Create c))
             \<lparr>sessions := sessions st1 @ [\<lparr>destroyed = False, inputUsage = u, inputQuota = q\<rparr>],
              promptAPISession := Some (length (sessions st1))\<rparr>) i"
      using t1 by (simp add: run_def resume_def st1_def [symmetric] i_def server_simps)
    moreover have "oneLive ((suspend st1 i (InitCreateAwait Create c))
             \<lparr>sessions := sessions (suspend st1 i (InitCreateAwait Create c))
                  @ [\<lparr>destroyed = False, inputUsage = u, inputQuota = q\<rparr>],
              promptAPISession := Some (length (sessions (suspend st1 i (InitCreateAwait Create c))))\<rparr>)"
      by (rule oneLive_new_session) (simp_all add: o1 s1 oneLive_simps server_simps)
    ultimately show ?thesis by (simp add: i_def oneLive_simps server_simps)
  qed
qed

text \<open>
  C4 fails on the code. With a session present, download-model runs to completion:
  \<open>promptAPISession = await initPromptAPISession(...)\<close> overwrites the variable, and
  the handler never calls \<open>destroy()\<close> on the old handle as create-session does. Both
  handles are live afterwards.
\<close>

theorem download_model_keeps_old_session:
  "(let st = run (sessionWith (Some 0) (Some 4096))
               [Message DownloadModel, Provider 1 (AvailabilityIs ''available''),
                Provider 1 (SessionIs (Some 0) (Some 4096))]
    in live (sessionWith (Some 0) (Some 4096)) = [0] \<and> live st = [0, 1]
       \<and> promptAPISession st = Some 1 \<and> port st = [SessionCreated, DownloadComplete])"
  by (simp add: sessionWith_eq run_def handler_defs live_def)

section \<open>Controllers of the cancelable operations\<close>

text \<open>
  A cancelable handler that gets past its guard aborts the controller the variable refers
  to and stores a fresh one; every way a cancelable task ends sets the variable to
  \<open>null\<close>, whichever controller it refers to by then.
\<close>

lemma handleDownloadModel_controller:
  assumes "languageModel st"
  shows "promptAPIController (handleDownloadModel st) = Some (length (controllers st))"
    and "\<not> aborted (handleDownloadModel st) (length (controllers st))"
    and "promptAPIController st = Some c \<Longrightarrow> c < length (controllers st) \<Longrightarrow>
         aborted (handleDownloadModel st) c"
  using assms
  by (simp_all add: handleDownloadModel_def isPromptAPISupported_def newAbortController_def
      abortExisting_def abort_def aborted_def spawn_def nth_append split: option.split)

lemma handlePromptStreaming_controller:
  assumes "promptAPISession st = Some h"
  shows "promptAPIController (handlePromptStreaming st ms) = Some (length (controllers st))"
    and "\<not> aborted (handlePromptStreaming st ms) (length (controllers st))"
    and "promptAPIController st = Some c \<Longrightarrow> c < length (controllers st) \<Longrightarrow>
         aborted (handlePromptStreaming st ms) c"
  using assms
  by (simp_all add: handlePromptStreaming_def newAbortController_def
      abortExisting_def abort_def aborted_def spawn_def nth_append split: option.split)

lemma cancelable_end_clears_controller:
  assumes "i < length (tasks st)" and "cancelable (tasks st ! i) = Some c"
    and "tasks (resume st i r) ! i = Finished"
  shows "promptAPIController (resume st i r) = None"
proof (cases "tasks st ! i")
  case (InitAvailabilityAwait k c')
  with assms show ?thesis
    by (cases k; cases r) (auto simp: resume_def suspend_def postMessage_def split: if_splits)
next
  case (InitCreateAwait k c')
  with assms show ?thesis
    by (cases k; cases r) (auto simp: resume_def suspend_def postMessage_def split: if_splits)
next
  case (StreamOpenAwait c')
  with assms show ?thesis
    by (cases r) (auto simp: resume_def suspend_def postMessage_def streamCatch_def streamFinally_def)
next
  case (StreamNextAwait c')
  with assms show ?thesis
    by (cases r)
       (auto simp: resume_def suspend_def postMessage_def streamCatch_def streamFinally_def
             split: option.splits if_splits)
qed (use assms in simp_all)

text \<open>
  C5 fails on the code. Download 0 starts; download 1 starts and aborts controller 0;
  download 0 ends with the abort error and its \<open>finally\<close> sets
  \<open>promptAPIController = null\<close>, which by then refers to controller 1; download 2
  starts, finds \<open>null\<close>, aborts nothing and creates controller 2. Downloads 1 and 2 are
  both in flight with signals that are not aborted, and both go on to post
  \<open>download-complete\<close>.
\<close>

theorem two_downloads_not_aborted:
  "(let st = run initial
               [Message DownloadModel, Provider 0 (AvailabilityIs ''downloadable''),
                Message DownloadModel, Provider 0 (Rejects ''aborted''),
                Provider 1 (AvailabilityIs ''downloadable''), Message DownloadModel];
        st' = run st [Provider 2 (AvailabilityIs ''downloadable''),
                      Provider 1 (SessionIs None None), Provider 2 (SessionIs None None)]
    in tasks st = [Finished, InitCreateAwait Download 1, InitAvailabilityAwait Download 2]
       \<and> controllers st = [True, False, False] \<and> promptAPIController st = Some 2
       \<and> liveControllers st = [1, 2]
       \<and> port st = [Error ''aborted'']
       \<and> port st' = [Error ''aborted'', DownloadComplete, DownloadComplete])"
  by (simp add: initial_def run_def handler_defs liveControllers_def List.map_filter_def)


end
